theory Spec2Isabelle
  imports Main
begin

section \<open>Batch management of git checkouts: the fabfile's repository engine\<close>

text \<open>
  The theory embeds the git-related helpers of \<^verbatim>\<open>fabfile.py\<close>: repository discovery
  (\<^verbatim>\<open>_get_git_repo_paths\<close>), the state queries (\<^verbatim>\<open>_has_remote_branch\<close>,
  \<^verbatim>\<open>_is_tracking_remote_branch\<close>, \<^verbatim>\<open>_get_remote_name\<close>), the three per-repository
  actions (\<^verbatim>\<open>_fetch_repo\<close>, \<^verbatim>\<open>_pull_repo\<close>, \<^verbatim>\<open>_check_is_repo_up_to_date\<close>) and the
  batch runner (\<^verbatim>\<open>_run_action_for_each_repo\<close>, \<^verbatim>\<open>_try_run\<close>).

  Python names start with an underscore; the definitions below drop it. Every
  exception is a value (\<open>Inl\<close> of a sum), every \<^verbatim>\<open>print\<close> and every git command
  that is executed is an event of a trace.
\<close>

subsection \<open>Exceptions\<close>

datatype error =
    ValueError string
  | TypeError string
  | AttributeError string
  | StopIteration
  | GitCommandError string
  | InvalidGitRepositoryError string
  | NoSuchPathError string

text \<open>\<^verbatim>\<open>str(error)\<close>: the message the exception was raised with.\<close>

fun error_str :: "error \<Rightarrow> string" where
  "error_str (ValueError m) = m"
| "error_str (TypeError m) = m"
| "error_str (AttributeError m) = m"
| "error_str StopIteration = ''''"
| "error_str (GitCommandError m) = m"
| "error_str (InvalidGitRepositoryError m) = m"
| "error_str (NoSuchPathError m) = m"

subsection \<open>Strings\<close>

definition dquote :: string where
  "dquote = [CHR 0x22]"

definition newline :: string where
  "newline = [CHR 0x0A]"

text \<open>\<^verbatim>\<open>s.startswith(p)\<close>.\<close>

fun startswith :: "string \<Rightarrow> string \<Rightarrow> bool" where
  "startswith s [] = True"
| "startswith [] (p # ps) = False"
| "startswith (c # cs) (p # ps) = (c = p \<and> startswith cs ps)"

text \<open>\<^verbatim>\<open>s.endswith(p)\<close>.\<close>

definition endswith :: "string \<Rightarrow> string \<Rightarrow> bool" where
  "endswith s p = startswith (rev s) (rev p)"

text \<open>\<^verbatim>\<open>p in s\<close> on strings: \<open>p\<close> occurs in \<open>s\<close> as a contiguous substring.\<close>

fun str_contains :: "string \<Rightarrow> string \<Rightarrow> bool" where
  "str_contains [] p = (p = [])"
| "str_contains (c # cs) p = (startswith (c # cs) p \<or> str_contains cs p)"

text \<open>The decimal digits of a natural number, as an f-string renders an \<^verbatim>\<open>int\<close>.\<close>

definition digit_char :: "nat \<Rightarrow> char" where
  "digit_char d = ''0123456789'' ! d"

fun str_of_nat :: "nat \<Rightarrow> string" where
  "str_of_nat n = (if n < 10 then [digit_char n] else str_of_nat (n div 10) @ [digit_char (n mod 10)])"

text \<open>\<^verbatim>\<open>os.path.join(a, b)\<close> of \<^verbatim>\<open>posixpath\<close>, for two components.\<close>

definition path_join :: "string \<Rightarrow> string \<Rightarrow> string" where
  "path_join a b =
     (if startswith b ''/'' then b
      else if a = [] \<or> endswith a ''/'' then a @ b
      else a @ ''/'' @ b)"

subsection \<open>Traces: what a run prints and which git commands it executes\<close>

datatype event =
    Print string
  | GitFetch string string
  | GitPull
  | RemoteUpdate string
  | GitRevList string

text \<open>
  A computation yields the events it performed and then either the exception that ended
  it or its value. Events performed before an exception stay in the trace.
\<close>

type_synonym 'a io = "event list \<times> (error + 'a)"

definition ret :: "'a \<Rightarrow> 'a io" where
  "ret x = ([], Inr x)"

definition lift :: "error + 'a \<Rightarrow> 'a io" where
  "lift r = ([], r)"

definition emit :: "event \<Rightarrow> unit io" where
  "emit e = ([e], Inr ())"

definition bind_io :: "'a io \<Rightarrow> ('a \<Rightarrow> 'b io) \<Rightarrow> 'b io" where
  "bind_io m f =
     (case m of
        (es, Inl e) \<Rightarrow> (es, Inl e)
      | (es, Inr x) \<Rightarrow> (case f x of (es', r) \<Rightarrow> (es @ es', r)))"

definition then_io :: "unit io \<Rightarrow> 'b io \<Rightarrow> 'b io" where
  "then_io m k = bind_io m (\<lambda>_. k)"

subsection \<open>The repository handle and the external collaborators\<close>

text \<open>
  What the code reads from a GitPython \<^verbatim>\<open>Repo\<close>:
  \<^verbatim>\<open>repo.head.is_detached\<close>, the commit the HEAD points to (it shows in the message of
  the exception of \<^verbatim>\<open>repo.active_branch\<close> only), the name of \<^verbatim>\<open>repo.active_branch\<close> (read
  by the code only when the HEAD is attached), the names of \<^verbatim>\<open>repo.remotes\<close>, \<^verbatim>\<open>str(ref)\<close> of every
  \<^verbatim>\<open>repo.references\<close> entry, \<^verbatim>\<open>repo.is_dirty(untracked_files=True)\<close> and the output of
  \<^verbatim>\<open>repo.git.status('-sb')\<close>.
\<close>

record repo =
  head_is_detached :: bool
  head_sha :: string
  branch :: string
  remotes :: "string list"
  references :: "string list"
  dirty :: bool
  status_sb :: string

text \<open>
  Everything outside the script: the file system (\<^verbatim>\<open>os.getcwd\<close>, the directory
  names of \<^verbatim>\<open>next(os.walk(p))[1]\<close>, where \<open>None\<close> stands for a walk that yields nothing,
  \<^verbatim>\<open>os.path.isdir\<close>, \<^verbatim>\<open>os.path.relpath\<close>), opening a repository (\<^verbatim>\<open>Repo(path)\<close>), the
  outcome of the git commands, \<^verbatim>\<open>termcolor.colored\<close> with and without the bold
  attribute, \<^verbatim>\<open>traceback.format_exc\<close>, and the module constant \<^verbatim>\<open>DEBUG_MODE\<close> (which the
  source sets to \<^verbatim>\<open>False\<close>).
\<close>

record world =
  getcwd :: string
  walk_dirs :: "string \<Rightarrow> string list option"
  isdir :: "string \<Rightarrow> bool"
  relpath :: "string \<Rightarrow> string"
  open_repo :: "string \<Rightarrow> error + repo"
  fetch_output :: "repo \<Rightarrow> string \<Rightarrow> string \<Rightarrow> error + string"
  pull_output :: "repo \<Rightarrow> error + string"
  update_result :: "repo \<Rightarrow> error + repo"
  rev_list :: "repo \<Rightarrow> string \<Rightarrow> error + string list"
  colored :: "string \<Rightarrow> string \<Rightarrow> string"
  colored_bold :: "string \<Rightarrow> string \<Rightarrow> string"
  format_exc :: "error \<Rightarrow> string"
  DEBUG_MODE :: bool

definition DEFAULT_GIT_REMOTE_NAME :: string where
  "DEFAULT_GIT_REMOTE_NAME = ''origin''"

subsection \<open>GitPython accessors\<close>

text \<open>
  \<^verbatim>\<open>repo.active_branch\<close> raises \<^verbatim>\<open>TypeError\<close> on a detached HEAD.
\<close>

definition active_branch :: "repo \<Rightarrow> error + string" where
  "active_branch r =
     (if head_is_detached r
      then Inl (TypeError (''HEAD is a detached symbolic reference as it points to ''
                           @ [CHR 0x27] @ head_sha r @ [CHR 0x27]))
      else Inr (branch r))"

text \<open>
  A \<^verbatim>\<open>Remote\<close> object. \<^verbatim>\<open>Repo.remote(name='origin')\<close> returns the remote of that name and
  raises \<^verbatim>\<open>ValueError\<close> when the repository has no remote of that name. The class defines
  neither \<^verbatim>\<open>__bool__\<close> nor \<^verbatim>\<open>__len__\<close>, so every \<^verbatim>\<open>Remote\<close> is truthy.
\<close>

datatype remote_obj = Remote (remote_name: string)

definition remote :: "repo \<Rightarrow> string \<Rightarrow> error + remote_obj" where
  "remote r name =
     (if name \<in> set (remotes r) then Inr (Remote name)
      else Inl (ValueError (''Remote named '' @ [CHR 0x27] @ name @ [CHR 0x27] @ '' didn't exist'')))"

fun remote_truthy :: "remote_obj \<Rightarrow> bool" where
  "remote_truthy (Remote n) = True"

text \<open>
  \<^verbatim>\<open>repo.remotes.origin\<close>: attribute access on the list of remotes, which ends in
  \<^verbatim>\<open>list.__getattribute__\<close> when no remote has that name.
\<close>

definition remotes_origin :: "repo \<Rightarrow> error + remote_obj" where
  "remotes_origin r =
     (if ''origin'' \<in> set (remotes r) then Inr (Remote ''origin'')
      else Inl (AttributeError ([CHR 0x27] @ ''IterableList'' @ [CHR 0x27]
                                @ '' object has no attribute '' @ [CHR 0x27] @ ''origin''
                                @ [CHR 0x27])))"

text \<open>The git commands: each is an event, whatever its outcome.\<close>

definition git_fetch :: "world \<Rightarrow> repo \<Rightarrow> string \<Rightarrow> string \<Rightarrow> string io" where
  "git_fetch w r rm b = ([GitFetch rm b], fetch_output w r rm b)"

definition git_pull :: "world \<Rightarrow> repo \<Rightarrow> string io" where
  "git_pull w r = ([GitPull], pull_output w r)"

definition remote_update :: "world \<Rightarrow> repo \<Rightarrow> remote_obj \<Rightarrow> repo io" where
  "remote_update w r rm = ([RemoteUpdate (remote_name rm)], update_result w r)"

text \<open>
  \<^verbatim>\<open>repo.iter_commits(spec)\<close> starts the \<^verbatim>\<open>rev-list\<close> command at once and returns a lazy
  iterator; a failure of the command surfaces when the iterator is consumed.
\<close>

definition iter_commits :: "world \<Rightarrow> repo \<Rightarrow> string \<Rightarrow> (error + string list) io" where
  "iter_commits w r spec = ([GitRevList spec], Inr (rev_list w r spec))"

text \<open>\<^verbatim>\<open>sum(1 for c in commits)\<close>: consuming the iterator and counting.\<close>

definition count_commits :: "error + string list \<Rightarrow> nat io" where
  "count_commits commits =
     lift (case commits of Inl e \<Rightarrow> Inl e | Inr cs \<Rightarrow> Inr (length cs))"

subsection \<open>Printing\<close>

definition print :: "string \<Rightarrow> unit io" where
  "print s = emit (Print s)"

definition print_info :: "world \<Rightarrow> string \<Rightarrow> unit io" where
  "print_info w s = print (''['' @ colored w ''info'' ''green'' @ ''] '' @ s)"

definition print_warn :: "world \<Rightarrow> string \<Rightarrow> unit io" where
  "print_warn w s = print (''['' @ colored w ''warn'' ''yellow'' @ ''] '' @ s)"

definition print_error :: "world \<Rightarrow> string \<Rightarrow> unit io" where
  "print_error w s = print (''['' @ colored w ''error'' ''red'' @ ''] '' @ s)"

definition as_bolded_white_str :: "world \<Rightarrow> string \<Rightarrow> string" where
  "as_bolded_white_str w s = colored_bold w s ''white''"

subsection \<open>State queries\<close>

definition is_repo_head_detached :: "repo \<Rightarrow> bool" where
  "is_repo_head_detached r = head_is_detached r"

text \<open>The loop \<^verbatim>\<open>for ref in repo.references: if str(ref) == name: return True\<close>.\<close>

fun ref_loop :: "string list \<Rightarrow> string \<Rightarrow> bool" where
  "ref_loop [] name = False"
| "ref_loop (ref # refs) name = (if ref = name then True else ref_loop refs name)"

definition has_branch :: "repo \<Rightarrow> string \<Rightarrow> bool" where
  "has_branch r b = ref_loop (references r) b"

definition has_remote_branch :: "string \<Rightarrow> repo \<Rightarrow> error + bool" where
  "has_remote_branch rname r =
     (if is_repo_head_detached r then Inr False
      else case active_branch r of
             Inl e \<Rightarrow> Inl e
           | Inr ab \<Rightarrow> Inr (ref_loop (references r) (rname @ ''/'' @ ab)))"

definition is_tracking_remote_branch :: "repo \<Rightarrow> error + bool" where
  "is_tracking_remote_branch r =
     (if is_repo_head_detached r then Inr False
      else if remotes r = [] then Inr False
      else case remote r ''origin'' of
             Inl e \<Rightarrow> Inl e
           | Inr rm \<Rightarrow>
               if \<not> remote_truthy rm then Inr False
               else (case active_branch r of
                       Inl e \<Rightarrow> Inl e
                     | Inr branch_name \<Rightarrow>
                         (let remote_branch_name = remote_name rm @ ''/'' @ branch_name
                          in Inr (str_contains (status_sb r)
                                    (branch_name @ ''...'' @ remote_branch_name)))))"

definition get_remote_name :: "repo \<Rightarrow> error + string" where
  "get_remote_name r =
     (case remote r ''origin'' of
        Inl e \<Rightarrow> Inl e
      | Inr rm \<Rightarrow> Inr (if remote_truthy rm then remote_name rm else DEFAULT_GIT_REMOTE_NAME))"

subsection \<open>Display strings\<close>

definition get_git_repo_identifier_str :: "world \<Rightarrow> string \<Rightarrow> string" where
  "get_git_repo_identifier_str w repo_dir = as_bolded_white_str w (relpath w repo_dir)"

definition get_git_repo_str :: "world \<Rightarrow> string \<Rightarrow> repo \<Rightarrow> error + string" where
  "get_git_repo_str w repo_dir r =
     (let repo_identifier = get_git_repo_identifier_str w repo_dir;
          dirty_state = (if dirty r then ''('' @ colored w ''DIRTY'' ''red'' @ '')'' else '''')
      in case (if is_repo_head_detached r then Inr ''(detached HEAD)'' else active_branch r) of
           Inl e \<Rightarrow> Inl e
         | Inr branch_text \<Rightarrow>
             Inr (''['' @ colored w branch_text ''green'' @ ''] '' @ dquote @ repo_identifier
                  @ dquote @ '' '' @ dirty_state))"

subsection \<open>The per-repository actions\<close>

text \<open>\<^verbatim>\<open>branch or repo.active_branch\<close>: \<^verbatim>\<open>None\<close> and the empty string are falsy.\<close>

definition branch_or_active :: "string option \<Rightarrow> repo \<Rightarrow> error + string" where
  "branch_or_active b r =
     (case b of
        None \<Rightarrow> active_branch r
      | Some s \<Rightarrow> (if s \<noteq> [] then Inr s else active_branch r))"

text \<open>\<^verbatim>\<open>if output: print(f'--> {output}')\<close> and the empty line after the operation.\<close>

definition print_output :: "string \<Rightarrow> unit io" where
  "print_output output =
     then_io (if output \<noteq> [] then print (''--> '' @ output) else ret ()) (print [])"

definition fetch_repo :: "world \<Rightarrow> string \<Rightarrow> repo \<Rightarrow> string option \<Rightarrow> unit io" where
  "fetch_repo w repo_dir r b =
     (if is_repo_head_detached r then
        print_warn w (''-- skipping repo: '' @ get_git_repo_identifier_str w repo_dir
                      @ '' (HEAD is currently detached)'' @ newline)
      else
        bind_io (lift (get_remote_name r)) (\<lambda>rname.
        bind_io (lift (has_remote_branch rname r)) (\<lambda>has.
          if \<not> has then
            bind_io (lift (active_branch r)) (\<lambda>ab.
              print_warn w (''-- skipping repo: '' @ get_git_repo_identifier_str w repo_dir
                            @ '' (no matching remote repository '' @ dquote
                            @ as_bolded_white_str w ab @ dquote @ '')'' @ newline))
          else
            bind_io (lift (branch_or_active b r)) (\<lambda>target_branch.
            bind_io (lift (get_git_repo_str w repo_dir r)) (\<lambda>repo_str.
            then_io (print_info w (''Fetching branch '' @ dquote @ target_branch @ dquote
                                   @ '' (from '' @ rname @ '') in repo: '' @ repo_str))
           (bind_io (git_fetch w r ''origin'' target_branch) print_output))))))"

definition pull_repo :: "world \<Rightarrow> string \<Rightarrow> repo \<Rightarrow> unit io" where
  "pull_repo w repo_dir r =
     (if dirty r then
        print_warn w (''-- skipping repo: '' @ get_git_repo_identifier_str w repo_dir @ '' ''
                      @ ''(repo state is DIRTY)'' @ newline)
      else if is_repo_head_detached r then
        print_warn w (''-- skipping repo: '' @ get_git_repo_identifier_str w repo_dir @ '' ''
                      @ ''(HEAD is currently detached)'' @ newline)
      else
        bind_io (lift (is_tracking_remote_branch r)) (\<lambda>tracking.
          if \<not> tracking then
            print_warn w (''-- skipping repo: '' @ get_git_repo_identifier_str w repo_dir
                          @ '' '' @ ''(no upstream branch is set)'' @ newline)
          else
            bind_io (lift (get_remote_name r)) (\<lambda>rname.
            bind_io (lift (has_remote_branch rname r)) (\<lambda>has.
              if \<not> has then
                print_warn w (''-- skipping repo: '' @ get_git_repo_identifier_str w repo_dir
                              @ '' '' @ ''(matching remote branch do not exist in the ''
                              @ ''references)'' @ newline)
              else
                bind_io (lift (get_git_repo_str w repo_dir r)) (\<lambda>repo_str.
                then_io (print_info w (''Pulling repo: '' @ repo_str))
               (bind_io (git_pull w r) print_output))))))"

text \<open>
  \<^verbatim>\<open>_update_remotes_in_repo\<close>. The handle reads the repository afresh at every query, so
  the state after the update is what the rest of the caller sees.
\<close>

definition update_remotes_in_repo :: "world \<Rightarrow> string \<Rightarrow> repo \<Rightarrow> repo io" where
  "update_remotes_in_repo w repo_dir r =
     bind_io (lift (get_git_repo_str w repo_dir r)) (\<lambda>repo_str.
     then_io (print_info w (''Updating remotes in repo: '' @ repo_str @ newline))
    (bind_io (lift (remotes_origin r)) (\<lambda>origin. remote_update w r origin)))"

text \<open>
  The two revision ranges of \<^verbatim>\<open>_check_is_repo_up_to_date\<close> (lines 556 and 557). The code
  starts the enumeration of \<open>commits_ahead\<close> first and of \<open>commits_behind\<close> second, then
  counts \<open>commits_behind\<close> first (line 559) and \<open>commits_ahead\<close> second (line 560).
\<close>

definition commits_ahead :: "string \<Rightarrow> string \<Rightarrow> string" where
  "commits_ahead remote_branch target_branch = remote_branch @ ''..'' @ target_branch"

definition commits_behind :: "string \<Rightarrow> string \<Rightarrow> string" where
  "commits_behind remote_branch target_branch = target_branch @ ''..'' @ remote_branch"

text \<open>
  The two counts, each as the code obtains it: the range is enumerated and its commits are
  counted.
\<close>

definition forward_commit_count :: "world \<Rightarrow> repo \<Rightarrow> string \<Rightarrow> string \<Rightarrow> nat io" where
  "forward_commit_count w r remote_branch target_branch =
     bind_io (iter_commits w r (commits_ahead remote_branch target_branch)) count_commits"

definition behind_commit_count :: "world \<Rightarrow> repo \<Rightarrow> string \<Rightarrow> string \<Rightarrow> nat io" where
  "behind_commit_count w r remote_branch target_branch =
     bind_io (iter_commits w r (commits_behind remote_branch target_branch)) count_commits"

text \<open>The three report lines of \<^verbatim>\<open>_check_is_repo_up_to_date\<close> (lines 562 to 580).\<close>

definition up_to_date_line :: "world \<Rightarrow> string \<Rightarrow> string" where
  "up_to_date_line w remote_branch =
     ''--> Origin ('' @ colored w remote_branch ''blue'' @ '') is ''
     @ colored w ''up-to-date'' ''green'' @ '' with local branch''"

definition origin_ahead_line :: "world \<Rightarrow> string \<Rightarrow> nat \<Rightarrow> string" where
  "origin_ahead_line w remote_branch n =
     ''--> Origin ('' @ colored w remote_branch ''blue'' @ '') is ''
     @ colored w (''ahead by '' @ str_of_nat n @ '' commit(s)'') ''green''"

definition local_ahead_line :: "world \<Rightarrow> string \<Rightarrow> nat \<Rightarrow> string" where
  "local_ahead_line w target_branch n =
     ''--> Local branch ('' @ colored w target_branch ''blue'' @ '') is ''
     @ colored w (''ahead by '' @ str_of_nat n @ '' commit(s)'') ''green''"

definition check_report :: "world \<Rightarrow> string \<Rightarrow> string \<Rightarrow> nat \<Rightarrow> nat \<Rightarrow> unit io" where
  "check_report w target_branch remote_branch behind_count forward_count =
     (if behind_count = 0 \<and> forward_count = 0 then
        print (up_to_date_line w remote_branch)
      else
        then_io (if behind_count > 0 then print (origin_ahead_line w remote_branch behind_count)
                 else ret ())
                (if forward_count > 0 then print (local_ahead_line w target_branch forward_count)
                 else ret ()))"

definition check_is_repo_up_to_date :: "world \<Rightarrow> string \<Rightarrow> repo \<Rightarrow> string option \<Rightarrow> unit io" where
  "check_is_repo_up_to_date w repo_dir r b =
     (if is_repo_head_detached r then
        print_warn w (''-- Skipping repo '' @ get_git_repo_identifier_str w repo_dir
                      @ '' (currently HEAD is detached from any branches) '')
      else
        bind_io (lift (get_remote_name r)) (\<lambda>rname.
        bind_io (lift (branch_or_active b r)) (\<lambda>target_branch.
          if \<not> has_branch r target_branch then
            print_warn w (''-- Skipping repo '' @ get_git_repo_identifier_str w repo_dir
                          @ ''(no matching branch '' @ dquote @ target_branch @ dquote @ '')'')
          else
            (let remote_branch = rname @ ''/'' @ target_branch in
             bind_io (lift (has_remote_branch rname r)) (\<lambda>has.
               if \<not> has then
                 print_warn w (''-- Skipping repo '' @ get_git_repo_identifier_str w repo_dir
                               @ ''(no matching remote branch '' @ dquote
                               @ colored w remote_branch ''blue'' @ dquote @ '')'')
               else
                 bind_io (update_remotes_in_repo w repo_dir r) (\<lambda>r'.
                 bind_io (lift (get_git_repo_str w repo_dir r')) (\<lambda>repo_str.
                 then_io (print (''Checking repository state '' @ repo_str))
                (bind_io (iter_commits w r' (commits_ahead remote_branch target_branch))
                   (\<lambda>ahead.
                 bind_io (iter_commits w r' (commits_behind remote_branch target_branch))
                   (\<lambda>behind.
                 bind_io (count_commits behind) (\<lambda>behind_count.
                 bind_io (count_commits ahead) (\<lambda>forward_count.
                   check_report w target_branch remote_branch behind_count
                     forward_count))))))))))))"

subsection \<open>The batch runner\<close>

text \<open>
  \<^verbatim>\<open>_try_run\<close>: every exception of the action is caught; its message is printed, and
  the traceback too under \<^verbatim>\<open>DEBUG_MODE\<close>.
\<close>

definition try_run :: "world \<Rightarrow> 'a io \<Rightarrow> unit io" where
  "try_run w m =
     (case m of
        (es, Inr x) \<Rightarrow> (es, Inr ())
      | (es, Inl e) \<Rightarrow>
          bind_io (es, Inr ()) (\<lambda>_.
          then_io (print_error w (''Message: '' @ error_str e))
                  (if DEBUG_MODE w then print_error w (format_exc w e) else ret ())))"

text \<open>
  \<^verbatim>\<open>_run_action_for_each_repo\<close>: \<^verbatim>\<open>Repo(repo_dir)\<close> is evaluated in the loop body, outside
  \<^verbatim>\<open>_try_run\<close>.
\<close>

fun run_action_for_each_repo ::
  "world \<Rightarrow> string list \<Rightarrow> (string \<Rightarrow> repo \<Rightarrow> 'a io) \<Rightarrow> unit io" where
  "run_action_for_each_repo w [] func = ret ()"
| "run_action_for_each_repo w (repo_dir # dirs) func =
     bind_io (lift (open_repo w repo_dir)) (\<lambda>r.
     then_io (try_run w (func repo_dir r))
             (run_action_for_each_repo w dirs func))"

subsection \<open>Discovery\<close>

definition has_git_repo :: "world \<Rightarrow> string \<Rightarrow> bool" where
  "has_git_repo w path = isdir w (path_join path ''.git'')"

text \<open>The loop of \<^verbatim>\<open>_get_git_repo_paths\<close> over the sub-directory names, appending to \<^verbatim>\<open>repo_paths\<close>.\<close>

fun repo_paths_loop :: "world \<Rightarrow> string \<Rightarrow> string list \<Rightarrow> string list \<Rightarrow> string list" where
  "repo_paths_loop w dir_path [] repo_paths = repo_paths"
| "repo_paths_loop w dir_path (sub_dir # subs) repo_paths =
     (if startswith sub_dir ''.'' then repo_paths_loop w dir_path subs repo_paths
      else
        (let repo_path = path_join dir_path sub_dir in
         if has_git_repo w repo_path
         then repo_paths_loop w dir_path subs (repo_paths @ [repo_path])
         else repo_paths_loop w dir_path subs repo_paths))"

definition get_git_repo_paths :: "world \<Rightarrow> string \<Rightarrow> error + string list" where
  "get_git_repo_paths w dir_path =
     (case walk_dirs w dir_path of
        None \<Rightarrow> Inl StopIteration
      | Some sub_directories \<Rightarrow> Inr (repo_paths_loop w dir_path sub_directories []))"

definition run_action_if_is_repo ::
  "world \<Rightarrow> string \<Rightarrow> (string \<Rightarrow> repo \<Rightarrow> 'a io) \<Rightarrow> unit io" where
  "run_action_if_is_repo w dir_path action_func =
     (if has_git_repo w dir_path then
        bind_io (lift (open_repo w dir_path)) (\<lambda>r. try_run w (action_func dir_path r))
      else
        print_error w (''No GIT repos found from '' @ dquote @ dir_path @ dquote))"

subsection \<open>The tasks\<close>

definition fetch_all :: "world \<Rightarrow> string option \<Rightarrow> unit io" where
  "fetch_all w b =
     (let current_directory = getcwd w in
      bind_io (lift (get_git_repo_paths w current_directory)) (\<lambda>git_repo_dirs.
        if git_repo_dirs = [] then
          run_action_if_is_repo w current_directory (\<lambda>repo_dir r. fetch_repo w repo_dir r b)
        else
          run_action_for_each_repo w git_repo_dirs (\<lambda>repo_dir r. fetch_repo w repo_dir r b)))"

definition pull_all :: "world \<Rightarrow> unit io" where
  "pull_all w =
     (let current_directory = getcwd w in
      bind_io (lift (get_git_repo_paths w current_directory)) (\<lambda>git_repo_dirs.
        if git_repo_dirs = [] then
          run_action_if_is_repo w current_directory (\<lambda>repo_dir r. pull_repo w repo_dir r)
        else
          run_action_for_each_repo w git_repo_dirs (\<lambda>repo_dir r. pull_repo w repo_dir r)))"

definition check_repo_states :: "world \<Rightarrow> string option \<Rightarrow> unit io" where
  "check_repo_states w b =
     (let current_directory = getcwd w in
      bind_io (lift (get_git_repo_paths w current_directory)) (\<lambda>git_repo_dirs.
        if git_repo_dirs = [] then
          run_action_if_is_repo w current_directory
            (\<lambda>repo_dir r. check_is_repo_up_to_date w repo_dir r b)
        else
          run_action_for_each_repo w git_repo_dirs
            (\<lambda>repo_dir r. check_is_repo_up_to_date w repo_dir r b)))"

subsection \<open>Skip reasons of the pull decision\<close>

text \<open>
  The specification names the outcome of a per-repository decision: one skip reason, or
  \<open>NONE\<close> when the operation proceeds. \<open>pull_skip\<close> is the run that only prints the
  warning of a reason: it is what the specification expects of a skipped pull, with the
  wording of the warnings of \<^verbatim>\<open>_pull_repo\<close>.
\<close>

datatype skip_reason =
  NONE | DIRTY | DETACHED_HEAD | NOT_TRACKING | NO_REMOTE_BRANCH | NO_MATCHING_BRANCH

fun pull_skip_text :: "skip_reason \<Rightarrow> string" where
  "pull_skip_text DIRTY = ''(repo state is DIRTY)''"
| "pull_skip_text DETACHED_HEAD = ''(HEAD is currently detached)''"
| "pull_skip_text NOT_TRACKING = ''(no upstream branch is set)''"
| "pull_skip_text NO_REMOTE_BRANCH = ''(matching remote branch do not exist in the references)''"
| "pull_skip_text NO_MATCHING_BRANCH = []"
| "pull_skip_text NONE = []"

definition pull_skip :: "world \<Rightarrow> string \<Rightarrow> skip_reason \<Rightarrow> unit io" where
  "pull_skip w repo_dir reason =
     ([Print (''['' @ colored w ''warn'' ''yellow'' @ ''] -- skipping repo: ''
              @ get_git_repo_identifier_str w repo_dir @ '' '' @ pull_skip_text reason
              @ newline)],
      Inr ())"

subsection \<open>The guards of the check operation\<close>

text \<open>
  The three skip rules of \<^verbatim>\<open>_check_is_repo_up_to_date\<close> (lines 531 to 552), read on the
  repository as it is when the action starts: the HEAD is attached, the remote name and
  the target branch resolve, the target branch is among the references, and so is the
  remote branch of the active branch.
\<close>

definition check_guards_pass :: "repo \<Rightarrow> string option \<Rightarrow> bool" where
  "check_guards_pass r b =
     (\<not> head_is_detached r \<and>
      (case get_remote_name r of
         Inl e \<Rightarrow> False
       | Inr rname \<Rightarrow>
           (case branch_or_active b r of
              Inl e \<Rightarrow> False
            | Inr target_branch \<Rightarrow>
                has_branch r target_branch \<and> has_remote_branch rname r = Inr True)))"

subsection \<open>Discovery and batch isolation as the specification words them\<close>

text \<open>
  A sub-directory qualifies when its name does not start with a dot and it holds a
  \<^verbatim>\<open>.git\<close> directory; \<open>discovered\<close> lists the qualifying sub-directories, in the order of
  the listing.
\<close>

definition qualifies :: "world \<Rightarrow> string \<Rightarrow> string \<Rightarrow> bool" where
  "qualifies w root sub =
     ((sub = [] \<or> hd sub \<noteq> CHR ''.'') \<and> isdir w (path_join (path_join root sub) ''.git''))"

definition discovered :: "world \<Rightarrow> string \<Rightarrow> string list \<Rightarrow> string list" where
  "discovered w root subs = map (path_join root) (filter (qualifies w root) subs)"

text \<open>
  The two-level policy of a batch task: the qualifying sub-directories when there is one;
  else the working directory alone when it holds the marker; else the report that no
  repository was found.
\<close>

definition two_level_batch :: "world \<Rightarrow> (string \<Rightarrow> repo \<Rightarrow> unit io) \<Rightarrow> unit io" where
  "two_level_batch w action =
     (case walk_dirs w (getcwd w) of
        None \<Rightarrow> ([], Inl StopIteration)
      | Some subs \<Rightarrow>
          if discovered w (getcwd w) subs \<noteq> [] then
            run_action_for_each_repo w (discovered w (getcwd w) subs) action
          else if isdir w (path_join (getcwd w) ''.git'') then
            bind_io (lift (open_repo w (getcwd w))) (\<lambda>r. try_run w (action (getcwd w) r))
          else
            ([Print (''['' @ colored w ''error'' ''red'' @ ''] No GIT repos found from ''
                     @ dquote @ getcwd w @ dquote)], Inr ()))"

text \<open>
  What \<^verbatim>\<open>_try_run\<close> adds to the trace for the outcome of an action: nothing for a value;
  for an exception the line with its message and, under \<^verbatim>\<open>DEBUG_MODE\<close>, the line with the
  traceback.
\<close>

definition error_lines :: "world \<Rightarrow> error + 'a \<Rightarrow> event list" where
  "error_lines w outcome =
     (case outcome of
        Inr x \<Rightarrow> []
      | Inl e \<Rightarrow>
          Print (''['' @ colored w ''error'' ''red'' @ ''] Message: '' @ error_str e)
          # (if DEBUG_MODE w
             then [Print (''['' @ colored w ''error'' ''red'' @ ''] '' @ format_exc w e)]
             else []))"

subsection \<open>Example repositories and an example world\<close>

definition attached_repo :: repo where
  "attached_repo =
     \<lparr>head_is_detached = False, head_sha = ''4f2a9c1'',
      branch = ''main'', remotes = [''origin''],
      references = [''main'', ''origin/main''], dirty = False,
      status_sb = ''## main...origin/main''\<rparr>"

definition detached_repo :: repo where
  "detached_repo =
     \<lparr>head_is_detached = True, head_sha = ''4f2a9c1'',
      branch = [], remotes = [''origin'', ''upstream''],
      references = [''main'', ''origin/main'', ''upstream/main''], dirty = False,
      status_sb = ''## HEAD (no branch)''\<rparr>"

definition upstream_only_repo :: repo where
  "upstream_only_repo =
     \<lparr>head_is_detached = False, head_sha = ''4f2a9c1'',
      branch = ''main'', remotes = [''upstream''],
      references = [''main'', ''upstream/main''], dirty = False,
      status_sb = ''## main...upstream/main''\<rparr>"

definition no_remote_repo :: repo where
  "no_remote_repo =
     \<lparr>head_is_detached = False, head_sha = ''4f2a9c1'',
      branch = ''main'', remotes = [],
      references = [''main''], dirty = False, status_sb = ''## main''\<rparr>"

definition override_repo :: repo where
  "override_repo =
     \<lparr>head_is_detached = False, head_sha = ''4f2a9c1'',
      branch = ''main'', remotes = [''origin''],
      references = [''main'', ''dev'', ''origin/dev''], dirty = False,
      status_sb = ''## main''\<rparr>"

definition stale_repo :: repo where
  "stale_repo =
     \<lparr>head_is_detached = False, head_sha = ''4f2a9c1'',
      branch = ''main'', remotes = [''origin''],
      references = [''main''], dirty = False, status_sb = ''## main''\<rparr>"

definition untracked_repo :: repo where
  "untracked_repo = attached_repo\<lparr>status_sb := ''## main''\<rparr>"

text \<open>
  A working directory \<^verbatim>\<open>/work\<close> with a hidden directory and three more, two of which
  hold a \<^verbatim>\<open>.git\<close> directory. Paths are shown relative to \<^verbatim>\<open>/work\<close>; colouring leaves the
  text as it is; a remote update brings
  \<^verbatim>\<open>origin/main\<close> into the references; the local branch is one commit ahead.
\<close>

definition plain_world :: world where
  "plain_world =
     \<lparr>getcwd = ''/work'',
      walk_dirs = (\<lambda>p. if p = ''/work'' then Some [''.cache'', ''svc-a'', ''docs'', ''svc-b'']
                       else None),
      isdir = (\<lambda>p. p = ''/work/.cache/.git'' \<or> p = ''/work/svc-a/.git''
                     \<or> p = ''/work/svc-b/.git''),
      relpath = (\<lambda>p. if p = ''/work'' then ''.''
                     else if startswith p ''/work/'' then drop 6 p else p),
      open_repo = (\<lambda>p. if p = ''/work/svc-a'' then Inr attached_repo
                       else if p = ''/work/svc-b'' then Inr detached_repo
                       else Inl (InvalidGitRepositoryError p)),
      fetch_output = (\<lambda>r rm b. Inr []),
      pull_output = (\<lambda>r. Inr ''Already up to date.''),
      update_result = (\<lambda>r. Inr (r\<lparr>references := [''main'', ''origin/main'']\<rparr>)),
      rev_list = (\<lambda>r s. if s = ''origin/main..main'' then Inr [''c1''] else Inr []),
      colored = (\<lambda>t c. t),
      colored_bold = (\<lambda>t c. t),
      format_exc = (\<lambda>e. ''Traceback (most recent call last)''),
      DEBUG_MODE = False\<rparr>"

text \<open>Two actions that raise the same exception, one in \<^verbatim>\<open>svc-a\<close> only, one in \<^verbatim>\<open>svc-b\<close> only.\<close>

definition fails_in_a :: "string \<Rightarrow> repo \<Rightarrow> unit io" where
  "fails_in_a repo_dir r =
     (if repo_dir = ''/work/svc-a'' then ([], Inl (GitCommandError ''exit code(128)''))
      else ([], Inr ()))"

definition fails_in_b :: "string \<Rightarrow> repo \<Rightarrow> unit io" where
  "fails_in_b repo_dir r =
     (if repo_dir = ''/work/svc-b'' then ([], Inl (GitCommandError ''exit code(128)''))
      else ([], Inr ()))"

section \<open>Properties\<close>

subsection \<open>Auxiliary facts\<close>

lemmas io_defs = bind_io_def then_io_def lift_def ret_def emit_def print_def
  print_warn_def print_info_def print_error_def

lemma ref_loop_mem: "ref_loop refs name \<longleftrightarrow> name \<in> set refs"
  by (induction refs) auto

lemma startswith_dot: "startswith s ''.'' \<longleftrightarrow> (s \<noteq> [] \<and> hd s = CHR ''.'')"
  by (cases s) auto

lemma repo_paths_loop_acc:
  "repo_paths_loop w root subs acc = acc @ discovered w root subs"
  by (induction subs arbitrary: acc)
    (simp_all add: discovered_def qualifies_def startswith_dot has_git_repo_def Let_def)

lemma get_git_repo_paths_discovered:
  "get_git_repo_paths w root =
     (case walk_dirs w root of None \<Rightarrow> Inl StopIteration
      | Some subs \<Rightarrow> Inr (discovered w root subs))"
  by (simp add: get_git_repo_paths_def repo_paths_loop_acc split: option.splits)

lemma try_run_trace:
  "try_run w m = (fst m @ error_lines w (snd m), Inr ())"
  by (cases m) (auto simp add: try_run_def error_lines_def io_defs split: sum.splits)

lemma attached_repo_str:
  "\<not> head_is_detached r \<Longrightarrow> \<exists>s. get_git_repo_str w d r = Inr s"
  by (simp add: get_git_repo_str_def is_repo_head_detached_def active_branch_def Let_def)

subsection \<open>The pull decision\<close>

text \<open>
  Claim C1. The skip rules of the pull action are evaluated in the order dirty, detached
  HEAD, not tracking, no remote branch: a dirty repository is skipped with the DIRTY
  warning whatever its other state is; a clean detached one with the detached-HEAD
  warning; a clean attached one that does not track with the no-upstream warning; a clean
  attached tracking one without a remote branch with the no-remote-branch warning. A
  skipped run is the warning alone, so it never executes the pull command; a run that
  passes the four rules executes it.
\<close>

theorem pull_skip_rules_in_order:
  "(dirty r \<longrightarrow> pull_repo w d r = pull_skip w d DIRTY)
   \<and> (\<not> dirty r \<and> head_is_detached r \<longrightarrow> pull_repo w d r = pull_skip w d DETACHED_HEAD)
   \<and> (\<not> dirty r \<and> \<not> head_is_detached r \<and> is_tracking_remote_branch r = Inr False
        \<longrightarrow> pull_repo w d r = pull_skip w d NOT_TRACKING)
   \<and> (\<not> dirty r \<and> \<not> head_is_detached r \<and> is_tracking_remote_branch r = Inr True
        \<and> get_remote_name r = Inr rname \<and> has_remote_branch rname r = Inr False
        \<longrightarrow> pull_repo w d r = pull_skip w d NO_REMOTE_BRANCH)
   \<and> (\<not> dirty r \<and> \<not> head_is_detached r \<and> is_tracking_remote_branch r = Inr True
        \<and> get_remote_name r = Inr rname \<and> has_remote_branch rname r = Inr True
        \<longrightarrow> GitPull \<in> set (fst (pull_repo w d r)))
   \<and> GitPull \<notin> set (fst (pull_skip w d reason))"
proof -
  have proceed: "GitPull \<in> set (fst (pull_repo w d r))"
    if clean: "\<not> dirty r" and attached: "\<not> head_is_detached r"
      and tracking: "is_tracking_remote_branch r = Inr True"
      and resolved: "get_remote_name r = Inr rname"
      and present: "has_remote_branch rname r = Inr True"
  proof -
    obtain s where "get_git_repo_str w d r = Inr s"
      using attached_repo_str [OF attached] by blast
    with clean attached tracking resolved present show ?thesis
      by (simp add: pull_repo_def io_defs is_repo_head_detached_def git_pull_def
          print_output_def split: sum.splits prod.splits)
  qed
  show ?thesis
    using proceed
    by (simp add: pull_repo_def pull_skip_def io_defs is_repo_head_detached_def)
qed

theorem pull_skip_rules_in_order_witness:
  "pull_repo plain_world ''/work/svc-a'' (attached_repo\<lparr>dirty := True\<rparr>)
     = pull_skip plain_world ''/work/svc-a'' DIRTY
   \<and> pull_repo plain_world ''/work/svc-a'' (detached_repo\<lparr>dirty := True\<rparr>)
     = pull_skip plain_world ''/work/svc-a'' DIRTY
   \<and> pull_repo plain_world ''/work/svc-a'' detached_repo
     = pull_skip plain_world ''/work/svc-a'' DETACHED_HEAD
   \<and> pull_repo plain_world ''/work/svc-a'' untracked_repo
     = pull_skip plain_world ''/work/svc-a'' NOT_TRACKING
   \<and> pull_repo plain_world ''/work/svc-a'' (attached_repo\<lparr>references := [''main'']\<rparr>)
     = pull_skip plain_world ''/work/svc-a'' NO_REMOTE_BRANCH
   \<and> GitPull \<in> set (fst (pull_repo plain_world ''/work/svc-a'' attached_repo))
   \<and> GitPull \<notin> set (fst (pull_skip plain_world ''/work/svc-a'' DIRTY))"
proof -
  have t0: "is_tracking_remote_branch untracked_repo = Inr False"
    by (simp add: is_tracking_remote_branch_def untracked_repo_def attached_repo_def
        is_repo_head_detached_def remote_def active_branch_def)
  have t1: "is_tracking_remote_branch (attached_repo\<lparr>references := [''main'']\<rparr>) = Inr True"
    by (simp add: is_tracking_remote_branch_def attached_repo_def
        is_repo_head_detached_def remote_def active_branch_def)
  have n1: "get_remote_name (attached_repo\<lparr>references := [''main'']\<rparr>) = Inr ''origin''"
    by (simp add: get_remote_name_def attached_repo_def remote_def)
  have h1: "has_remote_branch ''origin'' (attached_repo\<lparr>references := [''main'']\<rparr>) = Inr False"
    by (simp add: has_remote_branch_def attached_repo_def is_repo_head_detached_def
        active_branch_def)
  have t2: "is_tracking_remote_branch attached_repo = Inr True"
    by (simp add: is_tracking_remote_branch_def attached_repo_def
        is_repo_head_detached_def remote_def active_branch_def)
  have n2: "get_remote_name attached_repo = Inr ''origin''"
    by (simp add: get_remote_name_def attached_repo_def remote_def)
  have h2: "has_remote_branch ''origin'' attached_repo = Inr True"
    by (simp add: has_remote_branch_def attached_repo_def is_repo_head_detached_def
        active_branch_def)
  show ?thesis
    using
      pull_skip_rules_in_order [of "attached_repo\<lparr>dirty := True\<rparr>" plain_world
        "''/work/svc-a''" "''origin''" DIRTY]
      pull_skip_rules_in_order [of "detached_repo\<lparr>dirty := True\<rparr>" plain_world
        "''/work/svc-a''" "''origin''" DIRTY]
      pull_skip_rules_in_order [of detached_repo plain_world "''/work/svc-a''" "''origin''" DIRTY]
      pull_skip_rules_in_order [of untracked_repo plain_world "''/work/svc-a''" "''origin''" DIRTY]
      pull_skip_rules_in_order [of "attached_repo\<lparr>references := [''main'']\<rparr>" plain_world
        "''/work/svc-a''" "''origin''" DIRTY]
      pull_skip_rules_in_order [of attached_repo plain_world "''/work/svc-a''" "''origin''" DIRTY]
      t0 t1 n1 h1 t2 n2 h2
    by (simp add: attached_repo_def detached_repo_def untracked_repo_def)
qed

subsection \<open>The remote branch test and a branch override\<close>

text \<open>
  Claim C2, at an input where the code departs from it. The repository is on \<^verbatim>\<open>main\<close>, its
  references are \<^verbatim>\<open>main\<close>, \<^verbatim>\<open>dev\<close> and \<^verbatim>\<open>origin/dev\<close>, and the check is asked for the branch
  \<^verbatim>\<open>dev\<close>. The reference \<^verbatim>\<open>origin/dev\<close> exists, yet \<^verbatim>\<open>_has_remote_branch\<close> looks for
  \<^verbatim>\<open>origin/main\<close>, the remote branch of the active branch, and answers no; the check then
  skips the repository with a warning that names \<^verbatim>\<open>origin/dev\<close> as the missing branch.
\<close>

theorem has_remote_branch_ignores_override:
  "branch_or_active (Some ''dev'') override_repo = Inr ''dev''
   \<and> ''origin/dev'' \<in> set (references override_repo)
   \<and> has_remote_branch ''origin'' override_repo = Inr False
   \<and> check_is_repo_up_to_date plain_world ''/work/svc-a'' override_repo (Some ''dev'')
       = ([Print (''[warn] -- Skipping repo svc-a(no matching remote branch ''
                  @ dquote @ ''origin/dev'' @ dquote @ '')'')], Inr ())"
  by (simp add: override_repo_def branch_or_active_def has_remote_branch_def
      is_repo_head_detached_def active_branch_def check_is_repo_up_to_date_def
      get_remote_name_def remote_def has_branch_def get_git_repo_identifier_str_def
      as_bolded_white_str_def plain_world_def io_defs)

subsection \<open>The remote refresh of the check operation\<close>

text \<open>
  Claim C3 as stated fails. The references of \<^verbatim>\<open>stale_repo\<close> lack \<^verbatim>\<open>origin/main\<close>; a remote
  update would bring it in, and the remote branch test would then succeed. The check runs
  the test on the references as they are, skips the repository and never refreshes.
\<close>

theorem check_refresh_counterexample:
  "update_result plain_world stale_repo
     = Inr (stale_repo\<lparr>references := [''main'', ''origin/main'']\<rparr>)
   \<and> has_remote_branch ''origin'' (stale_repo\<lparr>references := [''main'', ''origin/main'']\<rparr>)
       = Inr True
   \<and> has_remote_branch ''origin'' stale_repo = Inr False
   \<and> check_is_repo_up_to_date plain_world ''/work/svc-a'' stale_repo None
       = ([Print (''[warn] -- Skipping repo svc-a(no matching remote branch ''
                  @ dquote @ ''origin/main'' @ dquote @ '')'')], Inr ())"
  by (simp add: stale_repo_def branch_or_active_def has_remote_branch_def
      is_repo_head_detached_def active_branch_def check_is_repo_up_to_date_def
      get_remote_name_def remote_def has_branch_def get_git_repo_identifier_str_def
      as_bolded_white_str_def plain_world_def io_defs)

text \<open>
  Claim C3, amended. The skip rules of the check, the remote branch test among them, are
  evaluated on the repository as it is before any refresh. When they all pass, the run
  starts with the information line and the remote update of \<^verbatim>\<open>origin\<close>, performed once;
  everything else, the enumeration of the two commit ranges included, comes after it. When
  one of them does not pass, the run performs no remote update and enumerates no commits.
\<close>

theorem check_refresh_after_guards:
  "(check_guards_pass r b \<longrightarrow>
      (\<exists>u rest. fst (check_is_repo_up_to_date w d r b) = Print u # RemoteUpdate ''origin'' # rest
                 \<and> (\<forall>x. RemoteUpdate x \<notin> set rest)))
   \<and> (\<not> check_guards_pass r b \<longrightarrow>
      (\<forall>x. RemoteUpdate x \<notin> set (fst (check_is_repo_up_to_date w d r b)))
      \<and> (\<forall>s. GitRevList s \<notin> set (fst (check_is_repo_up_to_date w d r b))))"
  by (auto simp add: check_guards_pass_def check_is_repo_up_to_date_def update_remotes_in_repo_def
      is_repo_head_detached_def io_defs get_git_repo_str_def active_branch_def remotes_origin_def
      get_remote_name_def remote_def remote_update_def iter_commits_def
      count_commits_def check_report_def Let_def
      split: sum.splits if_splits prod.splits)

theorem check_refresh_after_guards_witness:
  "check_guards_pass attached_repo None
   \<and> (\<exists>u rest. fst (check_is_repo_up_to_date plain_world ''/work/svc-a'' attached_repo None)
                  = Print u # RemoteUpdate ''origin'' # rest
                \<and> (\<forall>x. RemoteUpdate x \<notin> set rest))
   \<and> \<not> check_guards_pass stale_repo None
   \<and> (\<forall>x. RemoteUpdate x
            \<notin> set (fst (check_is_repo_up_to_date plain_world ''/work/svc-a'' stale_repo None)))"
proof -
  have g1: "check_guards_pass attached_repo None"
    by (simp add: check_guards_pass_def attached_repo_def get_remote_name_def remote_def
        branch_or_active_def active_branch_def has_branch_def has_remote_branch_def
        is_repo_head_detached_def)
  have g2: "\<not> check_guards_pass stale_repo None"
    by (simp add: check_guards_pass_def stale_repo_def get_remote_name_def remote_def
        branch_or_active_def active_branch_def has_branch_def has_remote_branch_def
        is_repo_head_detached_def)
  show ?thesis
    using g1 g2
      check_refresh_after_guards [of attached_repo None plain_world "''/work/svc-a''"]
      check_refresh_after_guards [of stale_repo None plain_world "''/work/svc-a''"]
    by blast
qed

subsection \<open>Resolving the remote name\<close>

text \<open>
  Claim C4, at inputs where the code departs from it. Line 616 reads
  \<^verbatim>\<open>remote.name if remote else DEFAULT_GIT_REMOTE_NAME\<close>: the code means to fall back to the
  default name. Yet \<^verbatim>\<open>repo.remote()\<close> never returns a falsy value: it returns the remote
  named \<^verbatim>\<open>origin\<close> or raises. So for a repository without remotes the resolution raises
  where the claim promises the default name, and for a repository whose single remote is
  \<^verbatim>\<open>upstream\<close> it raises where the claim promises \<^verbatim>\<open>upstream\<close>.
\<close>

theorem get_remote_name_raises:
  "remotes no_remote_repo = []
   \<and> get_remote_name no_remote_repo
       = Inl (ValueError (''Remote named '' @ [CHR 0x27] @ ''origin'' @ [CHR 0x27]
                          @ '' didn't exist''))
   \<and> remotes upstream_only_repo = [''upstream'']
   \<and> get_remote_name upstream_only_repo
       = Inl (ValueError (''Remote named '' @ [CHR 0x27] @ ''origin'' @ [CHR 0x27]
                          @ '' didn't exist''))"
  by (simp add: no_remote_repo_def upstream_only_repo_def get_remote_name_def remote_def)

text \<open>
  The fallback branch of line 616 is never taken, and wherever the resolution does return,
  its value is the one the claim names: the single remote when there is exactly one, the
  default name otherwise. The claim fails only where the code raises.
\<close>

lemma remote_always_truthy: "remote_truthy rm"
  by (cases rm) simp

lemma get_remote_name_value_where_returns:
  assumes "get_remote_name r = Inr n"
  shows "(remotes r = [x] \<longrightarrow> n = x)
         \<and> (length (remotes r) \<noteq> 1 \<longrightarrow> n = DEFAULT_GIT_REMOTE_NAME)"
  using assms
  by (auto simp add: get_remote_name_def remote_def DEFAULT_GIT_REMOTE_NAME_def
      split: if_splits)

subsection \<open>Discovery and the fallback to the working directory\<close>

text \<open>
  Claim C5. Discovery returns exactly the sub-directories of the listing of the root whose
  name does not start with a dot and which hold a \<^verbatim>\<open>.git\<close> directory, each joined to the
  root, in the order of the listing. The pull, fetch and check tasks run over them when
  there is one; when there is none they treat the working directory as the sole candidate
  if it holds the marker, and report that no repository was found otherwise.
\<close>

theorem discover_and_fallback:
  "(walk_dirs w root = Some subs \<longrightarrow> get_git_repo_paths w root = Inr (discovered w root subs))
   \<and> pull_all w = two_level_batch w (\<lambda>repo_dir r. pull_repo w repo_dir r)
   \<and> fetch_all w b = two_level_batch w (\<lambda>repo_dir r. fetch_repo w repo_dir r b)
   \<and> check_repo_states w b
       = two_level_batch w (\<lambda>repo_dir r. check_is_repo_up_to_date w repo_dir r b)"
  by (simp add: get_git_repo_paths_discovered pull_all_def fetch_all_def check_repo_states_def
      two_level_batch_def run_action_if_is_repo_def has_git_repo_def io_defs Let_def
      split: option.splits)

theorem discover_and_fallback_witness:
  "walk_dirs plain_world ''/work'' = Some [''.cache'', ''svc-a'', ''docs'', ''svc-b'']
   \<and> get_git_repo_paths plain_world ''/work'' = Inr [''/work/svc-a'', ''/work/svc-b'']"
proof -
  have l: "walk_dirs plain_world ''/work'' = Some [''.cache'', ''svc-a'', ''docs'', ''svc-b'']"
    by (simp add: plain_world_def)
  have d: "discovered plain_world ''/work'' [''.cache'', ''svc-a'', ''docs'', ''svc-b'']
             = [''/work/svc-a'', ''/work/svc-b'']"
    by (simp add: discovered_def qualifies_def path_join_def endswith_def plain_world_def)
  show ?thesis
    using l d
      discover_and_fallback [of plain_world "''/work''"
        "[''.cache'', ''svc-a'', ''docs'', ''svc-b'']" None]
    by simp
qed

subsection \<open>Isolation of failures in a batch\<close>

text \<open>
  Claim C6 as stated fails. The error line carries the message of the exception and
  nothing else. A batch over \<^verbatim>\<open>svc-a\<close> and \<^verbatim>\<open>svc-b\<close> prints the very same trace whether the
  action fails in the first repository or in the second: the line does not identify the
  failing repository.
\<close>

theorem error_line_counterexample:
  "run_action_for_each_repo plain_world [''/work/svc-a'', ''/work/svc-b''] fails_in_a
     = ([Print ''[error] Message: exit code(128)''], Inr ())
   \<and> run_action_for_each_repo plain_world [''/work/svc-a'', ''/work/svc-b''] fails_in_b
     = ([Print ''[error] Message: exit code(128)''], Inr ())"
  by (simp add: plain_world_def fails_in_a_def fails_in_b_def try_run_def io_defs)

text \<open>
  Claim C6, amended. Over paths whose repositories open, every exception of the action is
  caught: the batch never raises, and its trace is, path after path, the events of the
  action followed, when the action raised, by the error line with the message of the
  exception and, under the debug flag, by the error line with the traceback. Every path
  of the list is processed.
\<close>

theorem run_action_for_each_repo_catches:
  assumes "\<forall>d \<in> set dirs. open_repo w d = Inr (handle d)"
  shows "run_action_for_each_repo w dirs func
           = (concat (map (\<lambda>d. fst (func d (handle d)) @ error_lines w (snd (func d (handle d))))
                          dirs),
              Inr ())"
  using assms
proof (induction dirs)
  case Nil
  then show ?case by (simp add: ret_def)
next
  case (Cons d dirs)
  then show ?case by (simp add: try_run_trace io_defs)
qed

theorem run_action_for_each_repo_catches_witness:
  "open_repo (plain_world\<lparr>DEBUG_MODE := True\<rparr>) ''/work/svc-a'' = Inr attached_repo
   \<and> open_repo (plain_world\<lparr>DEBUG_MODE := True\<rparr>) ''/work/svc-b'' = Inr detached_repo
   \<and> run_action_for_each_repo (plain_world\<lparr>DEBUG_MODE := True\<rparr>)
        [''/work/svc-a'', ''/work/svc-b''] fails_in_a
       = ([Print ''[error] Message: exit code(128)'',
           Print ''[error] Traceback (most recent call last)''], Inr ())"
proof -
  have h: "\<forall>d \<in> set [''/work/svc-a'', ''/work/svc-b''].
             open_repo (plain_world\<lparr>DEBUG_MODE := True\<rparr>) d
               = Inr (if d = ''/work/svc-a'' then attached_repo else detached_repo)"
    by (simp add: plain_world_def)
  show ?thesis
    using run_action_for_each_repo_catches [OF h, of fails_in_a]
    by (simp add: error_lines_def fails_in_a_def plain_world_def)
qed

text \<open>
  The repository is opened outside \<^verbatim>\<open>_try_run\<close>: a path that does not open ends the batch,
  and the paths after it are not visited.
\<close>

lemma open_failure_ends_batch:
  "run_action_for_each_repo plain_world [''/work/docs'', ''/work/svc-a''] fails_in_b
     = ([], Inl (InvalidGitRepositoryError ''/work/docs''))"
  by (simp add: plain_world_def io_defs)

subsection \<open>Detached HEAD\<close>

text \<open>
  Claim C7. On a detached HEAD the tracking test and the remote branch test both answer
  no, whatever remotes are configured and whatever remote name is asked for.
\<close>

theorem detached_head_forces_false:
  "head_is_detached r \<Longrightarrow>
     is_tracking_remote_branch r = Inr False \<and> has_remote_branch rname r = Inr False"
  by (simp add: is_tracking_remote_branch_def has_remote_branch_def is_repo_head_detached_def)

theorem detached_head_forces_false_witness:
  "head_is_detached detached_repo \<and> length (remotes detached_repo) = 2
   \<and> is_tracking_remote_branch detached_repo = Inr False
   \<and> has_remote_branch ''origin'' detached_repo = Inr False"
proof -
  have d: "head_is_detached detached_repo" by (simp add: detached_repo_def)
  show ?thesis
    using d detached_head_forces_false [OF d, of "''origin''"] by (simp add: detached_repo_def)
qed

subsection \<open>Ahead and behind\<close>

text \<open>
  Claim C8. The count of the commits ahead, taken from \<open>a\<close> to \<open>b\<close>, is the count of the
  commits behind, taken from \<open>b\<close> to \<open>a\<close>: both enumerate the range \<^verbatim>\<open>a..b\<close>.
\<close>

theorem ahead_behind_swap:
  "forward_commit_count w r a b = behind_commit_count w r b a"
  by (simp add: forward_commit_count_def behind_commit_count_def commits_ahead_def
      commits_behind_def)



subsection \<open>The remote of a fetch\<close>

text \<open>
  Claim C10. Whenever the fetch action executes the fetch command, the remote it fetches
  from is the literal \<^verbatim>\<open>origin\<close> and the branch is the override or, without one, the
  active branch; the resolved remote name only appears in the information line.
\<close>

theorem fetch_remote_is_origin:
  "GitFetch rm tb \<in> set (fst (fetch_repo w d r b))
     \<Longrightarrow> rm = ''origin'' \<and> branch_or_active b r = Inr tb"
  by (auto simp add: fetch_repo_def io_defs git_fetch_def print_output_def
      split: if_splits sum.splits prod.splits)

theorem fetch_remote_is_origin_witness:
  "GitFetch ''origin'' ''dev''
     \<in> set (fst (fetch_repo plain_world ''/work/svc-a'' attached_repo (Some ''dev'')))
   \<and> branch_or_active (Some ''dev'') attached_repo = Inr ''dev''"
proof -
  have m: "GitFetch ''origin'' ''dev''
             \<in> set (fst (fetch_repo plain_world ''/work/svc-a'' attached_repo (Some ''dev'')))"
    by (simp add: fetch_repo_def io_defs git_fetch_def print_output_def attached_repo_def
        plain_world_def is_repo_head_detached_def get_remote_name_def remote_def
        has_remote_branch_def active_branch_def branch_or_active_def get_git_repo_str_def
        Let_def)
  show ?thesis
    using m fetch_remote_is_origin [OF m] by simp
qed

end
